theory Spec2Isabelle
  imports Complex_Main
begin

section \<open>Weather station firmware: connectivity and telemetry\<close>

text \<open>
  A shallow embedding of \<^verbatim>\<open>src/hardware/weather_station_280.py\<close>.

  The firmware talks to four collaborators that are not part of the file: the WLAN
  driver, the TCP socket of the configuration server, the MQTT client and the BMP280
  sensor driver. Each source function is modelled as a function of the answers these
  collaborators give (an oracle per call site) that returns the function's outcome
  together with the ordered list of external calls it made (its trace).
  A call of the source's \<^verbatim>\<open>log\<close> is the event \<open>Log\<close> carrying the level and
  the fixed text of the message; interpolated values are left out of the text.
\<close>

subsection \<open>Events, exceptions, outcomes\<close>

datatype level = INFO | ERROR | CRITICAL

datatype exn =
    ExternalError      \<comment> \<open>any exception raised by a collaborator\<close>
  | ConnectionError    \<comment> \<open>raised by \<^verbatim>\<open>connect_mqtt\<close> itself\<close>
  | RuntimeError       \<comment> \<open>the platform's "maximum recursion depth exceeded"\<close>

datatype topic = MQTT_TOPIC | MQTT_TOPIC_DATA_COLLECTION

text \<open>
  The dictionary built by \<^verbatim>\<open>format_data\<close> has the two keys
  \<^verbatim>\<open>"temperature"\<close> and \<^verbatim>\<open>"pressure"\<close>; each value is a number or a list
  of numbers. Sensor values are modelled as exact rationals: the representation error
  of binary floating point is outside the model.
\<close>

datatype jvalue = Num rat | NumList "rat list"

record payload =
  temperature :: jvalue
  pressure :: jvalue

text \<open>The two functions that the source installs as the callback of a periodic timer.\<close>

datatype timer_callback = PayloadCallback | LargePayloadCallback

datatype event =
    Log level string
  | Sleep nat
  | WlanActive
  | WlanConnect string string
  | WlanIsConnected bool
  | ApActive
  | ApConfig string string
  | ApIsActive bool
  | SockListen
  | SockAccept
  | SockRecv
  | SockSend string
  | SockClose
  | SslContext
  | NewClient bool
  | ClientConnect
  | JsonDumps payload
  | ClientPublish topic payload
  | SensorRead
  | TimerInit nat timer_callback
  | MachineReset

text \<open>
  A call returns a value, raises, or never comes back (\<open>Running\<close>):
  \<^verbatim>\<open>serve_web\<close> blocks in \<^verbatim>\<open>accept\<close> when no client comes, and
  \<^verbatim>\<open>main\<close> ends in an idle loop.
\<close>

datatype 'a outcome = Returned 'a | Raised exn | Running

subsection \<open>The broker session: \<^verbatim>\<open>ssl_context\<close> and \<^verbatim>\<open>connect_mqtt\<close>\<close>

text \<open>
  \<open>ssl_context ok\<close>: \<open>ok\<close> says whether building the TLS context succeeds. The result
  is whether a context was returned (the source returns \<^verbatim>\<open>None\<close> otherwise).
\<close>

definition ssl_context :: "bool \<Rightarrow> bool \<times> event list" where
  "ssl_context ok =
     (if ok then (True, [SslContext])
      else (False, [SslContext, Log ERROR ''SSL context error'']))"

text \<open>
  One pass through the body of the \<^verbatim>\<open>try\<close> of \<^verbatim>\<open>connect_mqtt\<close>: the
  constructor \<^verbatim>\<open>MQTTClient(...)\<close> may raise, and so may \<^verbatim>\<open>client.connect()\<close>.
\<close>

datatype attempt = CtorRaises | ConnectRaises | ConnectOk

text \<open>
  The client handle: whether it was built with a TLS context, and whether a call of
  its \<^verbatim>\<open>connect\<close> has succeeded.
\<close>

record client =
  with_ssl :: bool
  connected :: bool

text \<open>
  The \<^verbatim>\<open>while client is None and retry_count < 5\<close> loop. The assignment
  \<^verbatim>\<open>client = MQTTClient(...)\<close> takes effect before \<^verbatim>\<open>client.connect()\<close> runs,
  so after a connect that raises the variable holds the unconnected client.
  Every iteration that leaves \<open>client\<close> at \<^verbatim>\<open>None\<close> increments
  \<open>retry_count\<close>, hence the iteration number equals \<open>retry_count\<close> and the oracle
  \<open>env\<close> is indexed by it.
\<close>

function connect_mqtt_loop ::
  "(nat \<Rightarrow> attempt) \<Rightarrow> bool \<Rightarrow> client option \<Rightarrow> nat \<Rightarrow> client option \<times> event list" where
  "connect_mqtt_loop env context client retry_count =
     (if client = None \<and> retry_count < 5 then
        (case env retry_count of
           CtorRaises \<Rightarrow>
             (let (c, tr) = connect_mqtt_loop env context None (retry_count + 1)
              in (c, [NewClient context, Log ERROR ''MQTT connection failed'', Sleep 5] @ tr))
         | ConnectRaises \<Rightarrow>
             (let (c, tr) = connect_mqtt_loop env context
                              (Some \<lparr>with_ssl = context, connected = False\<rparr>) (retry_count + 1)
              in (c, [NewClient context, ClientConnect,
                      Log ERROR ''MQTT connection failed'', Sleep 5] @ tr))
         | ConnectOk \<Rightarrow>
             (let (c, tr) = connect_mqtt_loop env context
                              (Some \<lparr>with_ssl = context, connected = True\<rparr>) retry_count
              in (c, [NewClient context, ClientConnect,
                      Log INFO ''Connected to MQTT broker''] @ tr)))
      else (client, []))"
  by pat_completeness auto
termination
  by (relation "measure (\<lambda>(env, context, client, retry_count).
                   (5 - retry_count) + (if client = None then 1 else 0))") auto

declare connect_mqtt_loop.simps [simp del]

definition connect_mqtt :: "bool \<Rightarrow> (nat \<Rightarrow> attempt) \<Rightarrow> (exn + client) \<times> event list" where
  "connect_mqtt ctx_ok env =
     (let (context, tr0) = ssl_context ctx_ok;
          (client, tr1) = connect_mqtt_loop env context None 0
      in (case client of
            None \<Rightarrow>
              (Inl ConnectionError,
               tr0 @ tr1 @ [Log CRITICAL ''Failed to connect to MQTT broker after 5 attempts''])
          | Some c \<Rightarrow> (Inr c, tr0 @ tr1)))"

subsection \<open>Publishing: \<^verbatim>\<open>reconnect_mqtt\<close> and \<^verbatim>\<open>send_mqtt\<close>\<close>

text \<open>
  \<open>reconnect_mqtt depth conn k\<close>: \<open>conn i\<close> says whether the \<open>i\<close>-th call of
  \<^verbatim>\<open>client.connect()\<close> made during the recovery succeeds, and \<open>k\<close> is the number
  of calls made so far. On a failure the source sleeps 5 seconds and calls itself from
  the \<^verbatim>\<open>except\<close> handler, outside any \<^verbatim>\<open>try\<close>; the result of the inner call
  is the result of the outer one.

  The platform bounds the depth of recursion: \<open>depth\<close> is the number of nested
  calls of \<^verbatim>\<open>reconnect_mqtt\<close> for which it has room when the first call is made.
  A call for which there is no room raises \<open>RuntimeError\<close> in the caller, and
  since no handler of \<^verbatim>\<open>reconnect_mqtt\<close> encloses the self-call, the exception
  leaves every enclosing call of \<^verbatim>\<open>reconnect_mqtt\<close>. The calls of
  \<^verbatim>\<open>log\<close>, \<^verbatim>\<open>time.sleep\<close> and \<^verbatim>\<open>client.connect\<close> made by a call
  that has room are taken to have room as well.
\<close>

fun reconnect_mqtt :: "nat \<Rightarrow> (nat \<Rightarrow> bool) \<Rightarrow> nat \<Rightarrow> unit outcome \<times> event list" where
  "reconnect_mqtt 0 conn k = (Raised RuntimeError, [])"
| "reconnect_mqtt (Suc depth) conn k =
     (if conn k then
        (Returned (),
         [Log INFO ''Attempting to reconnect to MQTT broker...'', ClientConnect,
          Log INFO ''Reconnected to MQTT broker''])
      else
        (let (r, tr) = reconnect_mqtt depth conn (k + 1)
         in (r, [Log INFO ''Attempting to reconnect to MQTT broker...'', ClientConnect,
                 Log ERROR ''Reconnection failed'', Sleep 5] @ tr)))"

text \<open>
  What the transport does during one call of \<^verbatim>\<open>send_mqtt\<close>: whether
  \<^verbatim>\<open>ujson.dumps\<close> succeeds, whether \<^verbatim>\<open>client.publish\<close> succeeds, and the
  answers to the connects of a recovery. \<^verbatim>\<open>send_mqtt\<close> calls
  \<^verbatim>\<open>reconnect_mqtt\<close> from its \<^verbatim>\<open>except\<close> handler, so an exception of the
  recovery leaves \<^verbatim>\<open>send_mqtt\<close>.
\<close>

record transport =
  dumps_ok :: bool
  publish_ok :: bool
  connect_ok :: "nat \<Rightarrow> bool"

definition send_mqtt ::
  "nat \<Rightarrow> transport \<Rightarrow> topic \<Rightarrow> payload \<Rightarrow> unit outcome \<times> event list" where
  "send_mqtt depth tp topic data =
     (if \<not> dumps_ok tp then
        (let (r, tr) = reconnect_mqtt depth (connect_ok tp) 0
         in (r, [JsonDumps data, Log ERROR ''Failed to send data via MQTT''] @ tr))
      else if \<not> publish_ok tp then
        (let (r, tr) = reconnect_mqtt depth (connect_ok tp) 0
         in (r, [JsonDumps data, Log INFO ''Publishing to MQTT'', ClientPublish topic data,
                 Log ERROR ''Failed to send data via MQTT''] @ tr))
      else
        (Returned (),
         [JsonDumps data, Log INFO ''Publishing to MQTT'', ClientPublish topic data,
          Log INFO ''Data sent to MQTT'']))"

subsection \<open>Sampling: \<^verbatim>\<open>get_sensor_measurements\<close>, \<^verbatim>\<open>format_data\<close>, \<^verbatim>\<open>process_data\<close>\<close>

text \<open>
  Python's \<^verbatim>\<open>round(x, ndigits)\<close> on an exact value: to the nearest multiple of
  \<open>10 ^ -ndigits\<close>, a tie going to the even neighbour.
\<close>

definition round_half_even :: "rat \<Rightarrow> int" where
  "round_half_even x =
     (let f = \<lfloor>x\<rfloor>; d = x - of_int f
      in if d < 1 / 2 then f else if 1 / 2 < d then f + 1
         else if even f then f else f + 1)"

definition py_round :: "rat \<Rightarrow> nat \<Rightarrow> rat" where
  "py_round x ndigits = of_int (round_half_even (x * 10 ^ ndigits)) / 10 ^ ndigits"

text \<open>What reading the property \<^verbatim>\<open>sensor.measurements\<close> gives on one tick.\<close>

datatype sensor_result = DriverRaises | Measurements rat rat

definition get_sensor_measurements :: "sensor_result \<Rightarrow> (exn + rat \<times> rat) \<times> event list" where
  "get_sensor_measurements sensor =
     (case sensor of
        DriverRaises \<Rightarrow> (Inl ExternalError, [SensorRead])
      | Measurements t p \<Rightarrow>
          (Inr (py_round t 2, py_round p 2), [SensorRead, Log INFO ''Temperature, Pressure'']))"

definition format_data :: "jvalue \<Rightarrow> jvalue \<Rightarrow> payload" where
  "format_data temperature_data pressure_data =
     \<lparr>temperature = temperature_data, pressure = pressure_data\<rparr>"

definition process_data :: "sensor_result \<Rightarrow> payload option \<times> event list" where
  "process_data sensor =
     (case get_sensor_measurements sensor of
        (Inr (temperature', pressure'), tr) \<Rightarrow>
          (Some (format_data (Num temperature') (Num pressure')), tr)
      | (Inl e, tr) \<Rightarrow> (None, tr @ [Log ERROR ''Error while processing sensor data'']))"

subsection \<open>The timer callbacks of the three strategies\<close>

text \<open>
  The callback installed by \<^verbatim>\<open>create_payload_timer\<close> (\<open>PayloadCallback\<close>). The
  dictionary returned by \<^verbatim>\<open>process_data\<close> has two keys, so \<^verbatim>\<open>if data\<close> fails
  for \<^verbatim>\<open>None\<close> only.
\<close>

definition payload_timer_callback ::
  "nat \<Rightarrow> sensor_result \<Rightarrow> transport \<Rightarrow> unit outcome \<times> event list" where
  "payload_timer_callback depth sensor tp =
     (case process_data sensor of
        (None, tr) \<Rightarrow> (Returned (), tr)
      | (Some data, tr) \<Rightarrow>
          (let (r, tr') = send_mqtt depth tp MQTT_TOPIC data in (r, tr @ tr')))"

definition create_payload_timer :: "nat \<Rightarrow> event list" where
  "create_payload_timer interval = [TimerInit interval PayloadCallback]"

definition frequent_small_payload :: "event list" where
  "frequent_small_payload = create_payload_timer 1000"

definition infrequent_small_payload :: "event list" where
  "infrequent_small_payload = create_payload_timer 60000"

text \<open>
  The two lists captured by the callback of \<^verbatim>\<open>infrequent_large_payload\<close>.
\<close>

record buffers =
  temperature_data_buffer :: "rat list"
  pressure_data_buffer :: "rat list"

definition empty_buffers :: buffers where
  "empty_buffers = \<lparr>temperature_data_buffer = [], pressure_data_buffer = []\<rparr>"

text \<open>
  The batching callback (\<open>LargePayloadCallback\<close>). \<^verbatim>\<open>get_sensor_measurements\<close> is
  called outside any \<^verbatim>\<open>try\<close>, so a driver exception leaves the callback. The test
  \<^verbatim>\<open>if temperature and pressure\<close> is Python's truth test on two numbers: a number
  is true when it is not zero. The two calls of \<^verbatim>\<open>clear()\<close> come after the call of
  \<^verbatim>\<open>send_mqtt\<close>: they run when it has returned, and they do not run when an
  exception leaves it.
\<close>

definition large_payload_callback ::
  "nat \<Rightarrow> sensor_result \<Rightarrow> transport \<Rightarrow> buffers \<Rightarrow> unit outcome \<times> buffers \<times> event list" where
  "large_payload_callback depth sensor tp b =
     (case get_sensor_measurements sensor of
        (Inl e, tr) \<Rightarrow> (Raised e, b, tr)
      | (Inr (temperature', pressure'), tr) \<Rightarrow>
          (let b1 = (if temperature' \<noteq> 0 \<and> pressure' \<noteq> 0
                     then \<lparr>temperature_data_buffer = temperature_data_buffer b @ [temperature'],
                           pressure_data_buffer = pressure_data_buffer b @ [pressure']\<rparr>
                     else b)
           in if length (temperature_data_buffer b1) \<ge> 60 then
                (let data = format_data (NumList (temperature_data_buffer b1))
                                        (NumList (pressure_data_buffer b1));
                     (r, tr') = send_mqtt depth tp MQTT_TOPIC_DATA_COLLECTION data
                 in (case r of
                       Returned u \<Rightarrow> (Returned (), empty_buffers, tr @ tr')
                     | _ \<Rightarrow> (r, b1, tr @ tr')))
              else (Returned (), b1, tr)))"

definition infrequent_large_payload :: "buffers \<times> event list" where
  "infrequent_large_payload = (empty_buffers, [TimerInit 1000 LargePayloadCallback])"

text \<open>
  A run of the batching timer over the ticks given. The platform serialises the
  callbacks; a callback that raised is reported by the platform and the periodic timer
  goes on. The result lists the buffers at each observation point, that is, after
  each callback.
\<close>

fun large_payload_ticks ::
  "nat \<Rightarrow> (sensor_result \<times> transport) list \<Rightarrow> buffers \<Rightarrow> buffers list" where
  "large_payload_ticks depth [] b = []"
| "large_payload_ticks depth ((sensor, tp) # ticks) b =
     (case large_payload_callback depth sensor tp b of
        (r, b', tr) \<Rightarrow> b' # large_payload_ticks depth ticks b')"

subsection \<open>Joining a network: \<^verbatim>\<open>connect_wifi\<close>\<close>

text \<open>
  \<open>polls i\<close> is the answer of the \<open>i\<close>-th call of \<^verbatim>\<open>wlan.isconnected()\<close> made by
  one call of \<^verbatim>\<open>connect_wifi\<close>. The loop condition
  \<^verbatim>\<open>not wlan.isconnected() and retry_count < 5\<close> polls first and looks at the counter
  only when the answer is negative. The loop returns the number of polls made.
\<close>

function connect_wifi_loop :: "(nat \<Rightarrow> bool) \<Rightarrow> nat \<Rightarrow> nat \<Rightarrow> nat \<times> event list" where
  "connect_wifi_loop polls k retry_count =
     (if \<not> polls k then
        (if retry_count < 5 then
           (let (k', tr) = connect_wifi_loop polls (k + 1) (retry_count + 1)
            in (k', [WlanIsConnected False, Log INFO ''Attempting to connect to Wi-Fi'',
                     Sleep 1] @ tr))
         else (k + 1, [WlanIsConnected False]))
      else (k + 1, [WlanIsConnected True]))"
  by pat_completeness auto
termination
  by (relation "measure (\<lambda>(polls, k, retry_count). 5 - retry_count)") auto

declare connect_wifi_loop.simps [simp del]

definition connect_wifi :: "(nat \<Rightarrow> bool) \<Rightarrow> string \<Rightarrow> string \<Rightarrow> bool \<times> event list" where
  "connect_wifi polls ssid password =
     (let (k, tr) = connect_wifi_loop polls 0 0
      in if polls k then
           (True, [WlanActive, WlanConnect ssid password] @ tr @
                  [WlanIsConnected True, Log INFO ''Connected to Wi-Fi''])
         else
           (False, [WlanActive, WlanConnect ssid password] @ tr @
                   [WlanIsConnected False, Log ERROR ''Failed to connect to Wi-Fi'']))"

subsection \<open>The fallback access point: \<^verbatim>\<open>create_ap\<close>\<close>

definition AP_SSID :: string where
  "AP_SSID = ''Pico_Wifi_AP''"

definition AP_PASSWORD :: string where
  "AP_PASSWORD = ''123456789''"

text \<open>
  What the access-point interface does: its set-up raises, or it is configured and
  then reports itself inactive or active. \<^verbatim>\<open>create_ap\<close> catches every exception
  and returns nothing.
\<close>

datatype ap_result = ApRaises | ApInactive | ApRunning

definition create_ap :: "ap_result \<Rightarrow> event list" where
  "create_ap ap =
     (case ap of
        ApRaises \<Rightarrow> [ApActive, Log ERROR ''Exception in create_ap'']
      | ApInactive \<Rightarrow>
          [ApActive, ApConfig AP_SSID AP_PASSWORD, Log INFO ''Access Point created'', Sleep 2,
           ApIsActive False, Log ERROR ''Failed to activate the Access Point'']
      | ApRunning \<Rightarrow>
          [ApActive, ApConfig AP_SSID AP_PASSWORD, Log INFO ''Access Point created'', Sleep 2,
           ApIsActive True, Log INFO ''AP is active''])"

subsection \<open>Python's string operations used by the form parser\<close>

text \<open>
  \<open>find_at sub s i\<close>: the position of the first occurrence of \<open>sub\<close> in \<open>s\<close>, where
  \<open>s\<close> starts at position \<open>i\<close> of the whole string; \<open>-1\<close> when there is none.
\<close>

fun find_at :: "string \<Rightarrow> string \<Rightarrow> nat \<Rightarrow> int" where
  "find_at sub [] i = (if sub = [] then int i else - 1)"
| "find_at sub (c # cs) i =
     (if take (length sub) (c # cs) = sub then int i else find_at sub cs (i + 1))"

text \<open>\<^verbatim>\<open>s.find(sub, start)\<close>; a negative \<open>start\<close> counts from the end.\<close>

definition py_find :: "string \<Rightarrow> string \<Rightarrow> int \<Rightarrow> int" where
  "py_find s sub start =
     (let n = int (length s);
          st = (if start < 0 then max 0 (start + n) else start)
      in if n < st then - 1 else find_at sub (drop (nat st) s) (nat st))"

text \<open>\<^verbatim>\<open>sub in s\<close>.\<close>

definition py_in :: "string \<Rightarrow> string \<Rightarrow> bool" where
  "py_in sub s = (py_find s sub 0 \<noteq> - 1)"

text \<open>
  \<^verbatim>\<open>s[start:stop]\<close>: a negative bound counts from the end, both bounds are clipped
  to the string, and the slice is empty when they cross. Slicing never raises.
\<close>

definition slice_bound :: "nat \<Rightarrow> int \<Rightarrow> nat" where
  "slice_bound n i = (if i < 0 then nat (max 0 (i + int n)) else min (nat i) n)"

definition py_slice :: "string \<Rightarrow> int \<Rightarrow> int \<Rightarrow> string" where
  "py_slice s start stop =
     (let lo = slice_bound (length s) start; hi = slice_bound (length s) stop
      in take (hi - lo) (drop lo s))"

text \<open>
  \<^verbatim>\<open>str(request)\<close> for a \<^verbatim>\<open>bytes\<close> object: the letter \<^verbatim>\<open>b\<close> and the bytes
  between quotes. The quote is the single quote, unless the bytes contain a single quote
  and no double quote. The quote in use and the backslash are written with a backslash
  before them, tab, line feed and carriage return as \<^verbatim>\<open>\t\<close>, \<^verbatim>\<open>\n\<close> and
  \<^verbatim>\<open>\r\<close>, any other byte outside the printable ASCII range as \<^verbatim>\<open>\x\<close> and two
  hexadecimal digits.
\<close>

definition hex_digit :: "nat \<Rightarrow> char" where
  "hex_digit n = ''0123456789abcdef'' ! (n mod 16)"

definition escape_byte :: "char \<Rightarrow> char \<Rightarrow> string" where
  "escape_byte quote c =
     (if c = quote \<or> c = CHR 0x5C then [CHR 0x5C, c]
      else if c = CHR 0x09 then [CHR 0x5C, CHR ''t'']
      else if c = CHR 0x0A then [CHR 0x5C, CHR ''n'']
      else if c = CHR 0x0D then [CHR 0x5C, CHR ''r'']
      else if 32 \<le> (of_char c :: nat) \<and> (of_char c :: nat) < 127 then [c]
      else [CHR 0x5C, CHR ''x'', hex_digit (of_char c div 16), hex_digit (of_char c mod 16)])"

definition py_str_bytes :: "string \<Rightarrow> string" where
  "py_str_bytes bs =
     (let quote = (if CHR 0x27 \<in> set bs \<and> CHR 0x22 \<notin> set bs then CHR 0x22 else CHR 0x27)
      in [CHR ''b'', quote] @ concat (map (escape_byte quote) bs) @ [quote])"

subsection \<open>The configuration server: \<^verbatim>\<open>serve_web\<close>\<close>

text \<open>
  The extraction of the two form fields from the text of a request, lines 86 to 92
  of the source: the position after each marker is the result of \<^verbatim>\<open>find\<close> plus
  the length of the marker, whatever \<^verbatim>\<open>find\<close> returned.
\<close>

definition parse_form :: "string \<Rightarrow> string \<times> string" where
  "parse_form request_str =
     (let ssid_start = py_find request_str ''ssid='' 0 + 5;
          ssid_end = py_find request_str ''&'' ssid_start;
          password_start = py_find request_str ''password='' 0 + 9;
          password_end = py_find request_str '' HTTP'' password_start;
          ssid = py_slice request_str ssid_start ssid_end;
          password = py_slice request_str password_start password_end
      in (ssid, password))"

definition crlf :: string where
  "crlf = [CHR 0x0D, CHR 0x0A]"

definition ok_header :: string where
  "ok_header = ''HTTP/1.1 200 OK'' @ crlf @ ''Content-Type: text/html'' @ crlf @ crlf"

definition page_connected :: string where
  "page_connected = ''<html><body><h2>Wi-Fi Connected Successfully!</h2></body></html>''"

definition page_failed :: string where
  "page_failed = ''<html><body><h2>Failed to connect to Wi-Fi. Try again.</h2></body></html>''"

text \<open>
  What the next client does: \<^verbatim>\<open>accept\<close> raises, or a client connects and
  \<^verbatim>\<open>recv\<close> raises, or a client connects and \<open>Request request\<close> carries the
  bytes that \<^verbatim>\<open>cl.recv(1024)\<close> returns.
\<close>

datatype incoming = AcceptRaises | RecvRaises | Request string

text \<open>
  The \<^verbatim>\<open>while True\<close> loop of \<^verbatim>\<open>serve_web\<close>, over the clients that come. The
  \<^verbatim>\<open>break\<close> is inside \<^verbatim>\<open>if 'POST' in request_str\<close>: after any other request
  the loop goes back to \<^verbatim>\<open>accept\<close>, leaving the client's connection as it is. When
  no client is left the server stays blocked in \<^verbatim>\<open>accept\<close>. Any exception ends the
  loop in the handler of \<^verbatim>\<open>serve_web\<close>, which logs it and returns. \<open>polls\<close> is the
  oracle of the join that a POST request starts, \<open>send_ok\<close> says whether
  \<^verbatim>\<open>cl.send\<close> succeeds.
\<close>

fun serve_web_loop ::
  "(nat \<Rightarrow> bool) \<Rightarrow> bool \<Rightarrow> incoming list \<Rightarrow> unit outcome \<times> event list" where
  "serve_web_loop polls send_ok [] = (Running, [])"
| "serve_web_loop polls send_ok (AcceptRaises # rest) =
     (Returned (), [Log ERROR ''Exception in serve_web''])"
| "serve_web_loop polls send_ok (RecvRaises # rest) =
     (Returned (),
      [SockAccept, Log INFO ''Client connected'', Log ERROR ''Exception in serve_web''])"
| "serve_web_loop polls send_ok (Request request # rest) =
     (if py_in ''POST'' (py_str_bytes request) then
        (let (ssid, password) = parse_form (py_str_bytes request);
             (joined, tr) = connect_wifi polls ssid password
         in (Returned (),
             [SockAccept, Log INFO ''Client connected'', SockRecv, Log INFO ''Received SSID''] @
             tr @
             (if \<not> send_ok then [Log ERROR ''Exception in serve_web'']
              else if joined then [SockSend ok_header, SockSend page_connected, SockClose]
              else [SockSend ok_header, SockSend page_failed, SockClose])))
      else
        (let (r, tr) = serve_web_loop polls send_ok rest
         in (r, [SockAccept, Log INFO ''Client connected'', SockRecv] @ tr)))"

text \<open>
  \<open>sock_ok\<close> says whether opening the listening socket (\<^verbatim>\<open>getaddrinfo\<close>,
  \<^verbatim>\<open>socket\<close>, \<^verbatim>\<open>bind\<close>, \<^verbatim>\<open>listen\<close>) succeeds.
\<close>

definition serve_web ::
  "bool \<Rightarrow> (nat \<Rightarrow> bool) \<Rightarrow> bool \<Rightarrow> incoming list \<Rightarrow> unit outcome \<times> event list" where
  "serve_web sock_ok polls send_ok clients =
     (if \<not> sock_ok then (Returned (), [Log ERROR ''Exception in serve_web''])
      else
        (let (r, tr) = serve_web_loop polls send_ok clients
         in (r, [SockListen, Log INFO ''Listening''] @ tr)))"

subsection \<open>Start-up: \<^verbatim>\<open>main\<close>\<close>

text \<open>
  Everything the surroundings decide during one boot. \<open>SSID\<close> and \<open>PASSWORD\<close> are
  the known credentials that the source imports from its configuration module.
\<close>

record boot =
  SSID :: string
  PASSWORD :: string
  wifi_polls :: "nat \<Rightarrow> bool"
  boot_ap :: ap_result
  boot_sock_ok :: bool
  boot_clients :: "incoming list"
  form_polls :: "nat \<Rightarrow> bool"
  boot_send_ok :: bool
  boot_ctx_ok :: bool
  boot_broker :: "nat \<Rightarrow> attempt"

text \<open>
  \<^verbatim>\<open>main\<close> up to the point where it stops making calls of its own. On the
  fallback path it returns when \<^verbatim>\<open>serve_web\<close> does. After a successful
  \<^verbatim>\<open>connect_mqtt\<close> it installs the timer of \<^verbatim>\<open>frequent_small_payload\<close> and
  idles forever (\<open>Running\<close>). An exception of \<^verbatim>\<open>connect_mqtt\<close> is caught, logged
  and answered by \<^verbatim>\<open>machine.reset()\<close>.
\<close>

definition main :: "boot \<Rightarrow> unit outcome \<times> event list" where
  "main e =
     (let (joined, tr) = connect_wifi (wifi_polls e) (SSID e) (PASSWORD e)
      in if \<not> joined then
           (let tr_ap = create_ap (boot_ap e);
                (r, tr_web) = serve_web (boot_sock_ok e) (form_polls e) (boot_send_ok e) (boot_clients e)
            in (r, tr @
                   [Log INFO ''Failed to connect to the known Wi-Fi. Starting Access Point...''] @
                   tr_ap @ tr_web))
         else
           (case connect_mqtt (boot_ctx_ok e) (boot_broker e) of
              (Inl ex, tr_mqtt) \<Rightarrow>
                (Returned (),
                 tr @ [Log INFO ''Wi-Fi connected successfully, proceeding with MQTT connection.''] @
                 tr_mqtt @ [Log CRITICAL ''Critical error occurred'', MachineReset])
            | (Inr mqtt_client, tr_mqtt) \<Rightarrow>
                (Running,
                 tr @ [Log INFO ''Wi-Fi connected successfully, proceeding with MQTT connection.''] @
                 tr_mqtt @ frequent_small_payload)))"

subsection \<open>Observations on traces and buffers\<close>

text \<open>The calls of \<^verbatim>\<open>client.publish\<close> and of \<^verbatim>\<open>wlan.connect\<close> in a trace.\<close>

fun is_publish :: "event \<Rightarrow> bool" where
  "is_publish (ClientPublish t d) = True"
| "is_publish e = False"

fun is_join :: "event \<Rightarrow> bool" where
  "is_join (WlanConnect s p) = True"
| "is_join e = False"

text \<open>What one failed level of \<^verbatim>\<open>reconnect_mqtt\<close> does.\<close>

definition failed_reconnect :: "event list" where
  "failed_reconnect =
     [Log INFO ''Attempting to reconnect to MQTT broker...'', ClientConnect,
      Log ERROR ''Reconnection failed'', Sleep 5]"

text \<open>What one pass through the waiting loop of \<^verbatim>\<open>connect_wifi\<close> does.\<close>

definition failed_wait :: "event list" where
  "failed_wait =
     [WlanIsConnected False, Log INFO ''Attempting to connect to Wi-Fi'', Sleep 1]"

text \<open>A network that is never joined: every poll of \<^verbatim>\<open>wlan.isconnected()\<close> is negative.\<close>

definition never_joined :: "nat \<Rightarrow> bool" where
  "never_joined i = False"

text \<open>What the server does with a request that does not contain \<^verbatim>\<open>POST\<close>.\<close>

definition ignored_request :: "event list" where
  "ignored_request = [SockAccept, Log INFO ''Client connected'', SockRecv]"

text \<open>
  A broker that takes every publish, and a broker that is down: the publish raises
  and so does every connect of the recovery.
\<close>

definition broker_up :: transport where
  "broker_up = \<lparr>dumps_ok = True, publish_ok = True, connect_ok = (\<lambda>i. True)\<rparr>"

definition broker_down :: transport where
  "broker_down = \<lparr>dumps_ok = True, publish_ok = False, connect_ok = (\<lambda>i. False)\<rparr>"

text \<open>The number of readings held in the temperature buffer.\<close>

definition buffered :: "buffers \<Rightarrow> nat" where
  "buffered b = length (temperature_data_buffer b)"

section \<open>Properties\<close>

subsection \<open>The broker session\<close>

text \<open>
  When the constructor of the client raises on every pass, the loop of
  \<^verbatim>\<open>connect_mqtt\<close> makes five passes, sleeps 5 seconds after each, and raises.
\<close>

lemma connect_mqtt_ctor_raises:
  "connect_mqtt tls (\<lambda>i. CtorRaises) =
     (Inl ConnectionError,
      snd (ssl_context tls) @
      concat (replicate 5 [NewClient tls, Log ERROR ''MQTT connection failed'', Sleep 5]) @
      [Log CRITICAL ''Failed to connect to MQTT broker after 5 attempts''])"
  by (simp add: connect_mqtt_def ssl_context_def connect_mqtt_loop.simps numeral_eq_Suc)

text \<open>
  C1. The claim: when every connection attempt fails, \<^verbatim>\<open>connect_mqtt\<close> makes exactly
  five attempts, sleeps 5 seconds after each, raises \<^verbatim>\<open>ConnectionError\<close>, and never
  returns a client whose connect did not succeed.
  The code does otherwise when the constructor succeeds and \<^verbatim>\<open>client.connect()\<close>
  raises every time: the variable \<open>client\<close> is already set when the exception is
  caught, so the loop ends after the first attempt and the unconnected client is
  returned, whether or not a TLS context was built.
\<close>

theorem connect_mqtt_returns_unconnected_client:
  "connect_mqtt tls (\<lambda>i. ConnectRaises) =
     (Inr \<lparr>with_ssl = tls, connected = False\<rparr>,
      snd (ssl_context tls) @
      [NewClient tls, ClientConnect, Log ERROR ''MQTT connection failed'', Sleep 5])"
  by (simp add: connect_mqtt_def ssl_context_def connect_mqtt_loop.simps)

subsection \<open>Recovery of the session\<close>

text \<open>
  \<^verbatim>\<open>reconnect_mqtt\<close> comes back in every case: it returns exactly when one of the
  connects for which the recursion has room succeeds, and raises otherwise.
\<close>

lemma fst_reconnect_Suc:
  "fst (reconnect_mqtt (Suc n) conn k) =
     (if conn k then Returned () else fst (reconnect_mqtt n conn (Suc k)))"
  by (simp split: prod.splits)

lemma snd_reconnect_Suc:
  "snd (reconnect_mqtt (Suc n) conn k) =
     (if conn k then
        [Log INFO ''Attempting to reconnect to MQTT broker...'', ClientConnect,
         Log INFO ''Reconnected to MQTT broker'']
      else failed_reconnect @ snd (reconnect_mqtt n conn (Suc k)))"
  by (simp add: failed_reconnect_def split: prod.splits)

lemma reconnect_not_running: "fst (reconnect_mqtt n conn k) \<noteq> Running"
  by (induction n arbitrary: k) (simp_all add: fst_reconnect_Suc del: reconnect_mqtt.simps(2))

lemma reconnect_returns_iff:
  "(fst (reconnect_mqtt n conn k) = Returned ()) = (\<exists>i. k \<le> i \<and> i < k + n \<and> conn i)"
proof (induction n arbitrary: k)
  case 0 then show ?case by simp
next
  case (Suc n)
  show ?case
  proof (cases "conn k")
    case True
    then have "\<exists>i. k \<le> i \<and> i < k + Suc n \<and> conn i" by (intro exI[of _ k]) simp
    with True show ?thesis by (simp add: fst_reconnect_Suc del: reconnect_mqtt.simps)
  next
    case False
    have "(\<exists>i. k \<le> i \<and> i < k + Suc n \<and> conn i) = (\<exists>i. Suc k \<le> i \<and> i < Suc k + n \<and> conn i)"
      using False by (metis Suc_eq_plus1 add_Suc_right add_Suc not_less_eq_eq le_antisym Suc_leD)
    with False Suc[of "Suc k"] show ?thesis by (simp only: fst_reconnect_Suc if_False)
  qed
qed

lemma reconnect_raises_iff:
  "(fst (reconnect_mqtt n conn k) = Raised e) =
     (e = RuntimeError \<and> (\<forall>i. k \<le> i \<and> i < k + n \<longrightarrow> \<not> conn i))"
proof -
  have cases: "fst (reconnect_mqtt n conn k) = Returned () \<or>
               fst (reconnect_mqtt n conn k) = Raised RuntimeError"
    by (induction n arbitrary: k) (simp_all add: fst_reconnect_Suc del: reconnect_mqtt.simps(2))
  show ?thesis
    using cases reconnect_returns_iff [of n conn k] by auto
qed

lemma reconnect_all_fail:
  "\<forall>i. \<not> conn i \<Longrightarrow>
   reconnect_mqtt n conn k = (Raised RuntimeError, concat (replicate n failed_reconnect))"
  by (induction n arbitrary: k) (auto simp: failed_reconnect_def)

lemma reconnect_no_publish: "filter is_publish (snd (reconnect_mqtt n conn k)) = []"
  by (induction n arbitrary: k)
     (simp_all add: snd_reconnect_Suc failed_reconnect_def del: reconnect_mqtt.simps(2))

lemma count_connect_failed: "count_list (concat (replicate n failed_reconnect)) ClientConnect = n"
  by (induction n) (simp_all add: failed_reconnect_def)

text \<open>
  C2. The claim: when every connect fails, \<^verbatim>\<open>reconnect_mqtt\<close> never gives up; for
  every \<open>n\<close> it makes more than \<open>n\<close> attempts, and it comes back to its caller only
  after a connect has succeeded.
  The code retries by calling itself, so every failed attempt takes one more level of
  the platform's bounded recursion. With every connect failing it makes exactly as
  many attempts as the platform has room for nested calls, each followed by a sleep of
  5 seconds; the next self-call raises, and the exception reaches the caller of
  \<^verbatim>\<open>reconnect_mqtt\<close>.
\<close>

theorem reconnect_mqtt_gives_up:
  "reconnect_mqtt depth (\<lambda>i. False) 0 =
     (Raised RuntimeError, concat (replicate depth failed_reconnect)) \<and>
   count_list (snd (reconnect_mqtt depth (\<lambda>i. False) 0)) ClientConnect = depth"
  by (simp add: reconnect_all_fail count_connect_failed)

subsection \<open>Publishing\<close>

lemma fst_send_mqtt:
  "fst (send_mqtt depth tp topic data) =
     (if dumps_ok tp \<and> publish_ok tp then Returned ()
      else fst (reconnect_mqtt depth (connect_ok tp) 0))"
  by (simp add: send_mqtt_def split: prod.splits)

lemma snd_send_mqtt:
  "snd (send_mqtt depth tp topic data) =
     (if \<not> dumps_ok tp then
        [JsonDumps data, Log ERROR ''Failed to send data via MQTT''] @
        snd (reconnect_mqtt depth (connect_ok tp) 0)
      else if \<not> publish_ok tp then
        [JsonDumps data, Log INFO ''Publishing to MQTT'', ClientPublish topic data,
         Log ERROR ''Failed to send data via MQTT''] @
        snd (reconnect_mqtt depth (connect_ok tp) 0)
      else [JsonDumps data, Log INFO ''Publishing to MQTT'', ClientPublish topic data,
            Log INFO ''Data sent to MQTT''])"
  by (simp add: send_mqtt_def split: prod.splits)

lemma send_mqtt_publishes:
  "filter is_publish (snd (send_mqtt depth tp topic data)) =
     (if dumps_ok tp then [ClientPublish topic data] else [])"
  by (simp add: snd_send_mqtt reconnect_no_publish)

lemma send_mqtt_broker_down:
  "send_mqtt depth broker_down topic data =
     (Raised RuntimeError,
      [JsonDumps data, Log INFO ''Publishing to MQTT'', ClientPublish topic data,
       Log ERROR ''Failed to send data via MQTT''] @
      concat (replicate depth failed_reconnect))"
  by (simp add: send_mqtt_def broker_down_def reconnect_all_fail)

lemma send_mqtt_broker_up:
  "send_mqtt depth broker_up topic data =
     (Returned (),
      [JsonDumps data, Log INFO ''Publishing to MQTT'', ClientPublish topic data,
       Log INFO ''Data sent to MQTT''])"
  by (simp add: send_mqtt_def broker_up_def)

lemma fst_payload_timer_callback:
  "fst (payload_timer_callback depth sensor tp) =
     (case sensor of
        DriverRaises \<Rightarrow> Returned ()
      | Measurements t p \<Rightarrow>
          fst (send_mqtt depth tp MQTT_TOPIC (format_data (Num (py_round t 2)) (Num (py_round p 2)))))"
  by (simp add: payload_timer_callback_def process_data_def get_sensor_measurements_def
           split: sensor_result.splits prod.splits)

lemma snd_payload_timer_callback:
  "snd (payload_timer_callback depth (Measurements t p) tp) =
     [SensorRead, Log INFO ''Temperature, Pressure''] @
     snd (send_mqtt depth tp MQTT_TOPIC (format_data (Num (py_round t 2)) (Num (py_round p 2))))"
  by (simp add: payload_timer_callback_def process_data_def get_sensor_measurements_def
           split: prod.splits)

text \<open>
  C10. The claim: \<^verbatim>\<open>send_mqtt\<close> never raises to its caller, so a timer callback
  never sees an exception of a publish.
  The code catches the exception of \<^verbatim>\<open>client.publish\<close> and calls
  \<^verbatim>\<open>reconnect_mqtt\<close> from the handler. With a broker that is down, the recovery
  uses up the depth of recursion and its exception leaves \<^verbatim>\<open>send_mqtt\<close> and the
  callback of \<^verbatim>\<open>create_payload_timer\<close>. This is the defect of C2 seen from the
  caller. (The payload is published once and not again: \<open>send_mqtt_publishes\<close>.)
\<close>

theorem send_mqtt_raises_when_recovery_overflows:
  "send_mqtt depth broker_down topic data =
     (Raised RuntimeError,
      [JsonDumps data, Log INFO ''Publishing to MQTT'', ClientPublish topic data,
       Log ERROR ''Failed to send data via MQTT''] @
      concat (replicate depth failed_reconnect)) \<and>
   fst (payload_timer_callback depth (Measurements t p) broker_down) = Raised RuntimeError"
  by (simp add: send_mqtt_broker_down fst_payload_timer_callback)

subsection \<open>Sampling\<close>

text \<open>
  C9. When the driver raises, \<^verbatim>\<open>process_data\<close> returns \<^verbatim>\<open>None\<close> instead of
  raising, and the callback of the two small-payload strategies returns after one read
  of the sensor without serialising or publishing anything. The two strategies install
  the same callback and differ in the period of the timer.
\<close>

theorem process_data_sensor_failure:
  "process_data DriverRaises = (None, [SensorRead, Log ERROR ''Error while processing sensor data'']) \<and>
   payload_timer_callback depth DriverRaises tp =
     (Returned (), [SensorRead, Log ERROR ''Error while processing sensor data'']) \<and>
   frequent_small_payload = [TimerInit 1000 PayloadCallback] \<and>
   infrequent_small_payload = [TimerInit 60000 PayloadCallback]"
  by (simp add: process_data_def payload_timer_callback_def get_sensor_measurements_def
        frequent_small_payload_def infrequent_small_payload_def create_payload_timer_def)

text \<open>
  \<^verbatim>\<open>round(x, 2)\<close> gives a multiple of one hundredth that is at most half a hundredth
  away from \<open>x\<close>.
\<close>

lemma round_half_even_near: "\<bar>of_int (round_half_even x) - x\<bar> \<le> 1 / 2"
proof -
  have "of_int \<lfloor>x\<rfloor> \<le> x" "x < of_int \<lfloor>x\<rfloor> + 1" by linarith+
  then show ?thesis by (auto simp: round_half_even_def Let_def)
qed

lemma py_round_2_near: "\<bar>py_round x 2 - x\<bar> \<le> 1 / 200"
proof -
  have "\<bar>of_int (round_half_even (x * 100)) - x * 100\<bar> \<le> 1 / 2"
    by (rule round_half_even_near)
  then have "\<bar>(of_int (round_half_even (x * 100)) - x * 100) / 100\<bar> \<le> (1 / 2) / 100"
    by (simp only: abs_divide) (simp add: divide_le_cancel)
  then show ?thesis by (simp add: py_round_def diff_divide_distrib)
qed

lemma py_round_2_grid: "\<exists>m::int. py_round x 2 = of_int m / 100"
  by (auto simp: py_round_def)

lemma py_round_scenario: "py_round 21.456 2 = 21.46" "py_round 1013.256 2 = 1013.26"
  by code_simp+

lemma py_round_zero: "py_round 0 2 = 0"
  by code_simp

text \<open>
  C7. \<^verbatim>\<open>get_sensor_measurements\<close> returns the two values of the driver, each
  rounded to two decimal places. Under the strategy \<^verbatim>\<open>frequent_small_payload\<close> (a
  timer of 1000 ms) with a sensor that gives 21.456 and 1013.256, a tick on which the
  serialisation works calls \<^verbatim>\<open>client.publish\<close> exactly once, on the topic of the
  small payloads, with temperature 21.46 and pressure 1013.26.
\<close>

theorem get_sensor_measurements_rounds:
  "fst (get_sensor_measurements (Measurements t p)) = Inr (py_round t 2, py_round p 2) \<and>
   (\<exists>m::int. py_round t 2 = of_int m / 100) \<and> \<bar>py_round t 2 - t\<bar> \<le> 1 / 200 \<and>
   (\<exists>m::int. py_round p 2 = of_int m / 100) \<and> \<bar>py_round p 2 - p\<bar> \<le> 1 / 200 \<and>
   frequent_small_payload = [TimerInit 1000 PayloadCallback] \<and>
   (dumps_ok tp \<longrightarrow>
      filter is_publish (snd (payload_timer_callback depth (Measurements 21.456 1013.256) tp)) =
        [ClientPublish MQTT_TOPIC \<lparr>temperature = Num 21.46, pressure = Num 1013.26\<rparr>])"
proof (intro conjI impI)
  show "fst (get_sensor_measurements (Measurements t p)) = Inr (py_round t 2, py_round p 2)"
    by (simp add: get_sensor_measurements_def)
  show "\<exists>m::int. py_round t 2 = of_int m / 100" "\<exists>m::int. py_round p 2 = of_int m / 100"
    by (rule py_round_2_grid)+
  show "\<bar>py_round t 2 - t\<bar> \<le> 1 / 200" "\<bar>py_round p 2 - p\<bar> \<le> 1 / 200"
    by (rule py_round_2_near)+
  show "frequent_small_payload = [TimerInit 1000 PayloadCallback]"
    by (simp add: frequent_small_payload_def create_payload_timer_def)
next
  assume "dumps_ok tp"
  then show "filter is_publish (snd (payload_timer_callback depth (Measurements 21.456 1013.256) tp)) =
        [ClientPublish MQTT_TOPIC \<lparr>temperature = Num 21.46, pressure = Num 1013.26\<rparr>]"
    by (simp only: snd_payload_timer_callback py_round_scenario format_data_def
          filter_append send_mqtt_publishes)
       simp
qed

theorem get_sensor_measurements_rounds_witness:
  "dumps_ok \<lparr>dumps_ok = True, publish_ok = True, connect_ok = (\<lambda>i. False)\<rparr> \<and>
   filter is_publish
     (snd (payload_timer_callback 0 (Measurements 21.456 1013.256)
             \<lparr>dumps_ok = True, publish_ok = True, connect_ok = (\<lambda>i. False)\<rparr>)) =
     [ClientPublish MQTT_TOPIC \<lparr>temperature = Num 21.46, pressure = Num 1013.26\<rparr>]"
  using get_sensor_measurements_rounds
          [of 0 0 "\<lparr>dumps_ok = True, publish_ok = True, connect_ok = (\<lambda>i. False)\<rparr>" 0]
  by simp

subsection \<open>The batching strategy\<close>

text \<open>
  C5. The claim: every successful reading is appended to the two buffers, whatever its
  value. The code tests \<^verbatim>\<open>if temperature and pressure\<close>, which is false for a
  value of zero: a successful reading of 0.0 degrees at 1013.25 hPa leaves both
  buffers as they were.
\<close>

theorem large_payload_callback_drops_zero_reading:
  "large_payload_callback depth (Measurements 0 1013.25) tp empty_buffers =
     (Returned (), empty_buffers, [SensorRead, Log INFO ''Temperature, Pressure''])"
  by (simp add: large_payload_callback_def get_sensor_measurements_def py_round_zero
        empty_buffers_def)

text \<open>A reading whose rounded values are both non-zero is appended.\<close>

lemma large_payload_callback_appends:
  assumes "py_round t 2 \<noteq> 0" "py_round p 2 \<noteq> 0" "length (temperature_data_buffer b) < 59"
  shows "large_payload_callback depth (Measurements t p) tp b =
     (Returned (),
      \<lparr>temperature_data_buffer = temperature_data_buffer b @ [py_round t 2],
       pressure_data_buffer = pressure_data_buffer b @ [py_round p 2]\<rparr>,
      [SensorRead, Log INFO ''Temperature, Pressure''])"
  using assms by (simp add: large_payload_callback_def get_sensor_measurements_def)

lemma large_payload_callback_overflow:
  assumes "py_round t 2 \<noteq> 0" "py_round p 2 \<noteq> 0" "59 \<le> length (temperature_data_buffer b)"
  shows "large_payload_callback depth (Measurements t p) broker_down b =
     (Raised RuntimeError,
      \<lparr>temperature_data_buffer = temperature_data_buffer b @ [py_round t 2],
       pressure_data_buffer = pressure_data_buffer b @ [py_round p 2]\<rparr>,
      [SensorRead, Log INFO ''Temperature, Pressure''] @
      snd (send_mqtt depth broker_down MQTT_TOPIC_DATA_COLLECTION
             (format_data (NumList (temperature_data_buffer b @ [py_round t 2]))
                          (NumList (pressure_data_buffer b @ [py_round p 2])))))"
  using assms
  by (simp add: large_payload_callback_def get_sensor_measurements_def send_mqtt_broker_down
        Let_def)

lemma large_payload_callback_equal_length:
  assumes "length (temperature_data_buffer b) = length (pressure_data_buffer b)"
  shows "length (temperature_data_buffer (fst (snd (large_payload_callback depth sensor tp b)))) =
         length (pressure_data_buffer (fst (snd (large_payload_callback depth sensor tp b))))"
  using assms
  by (auto simp: large_payload_callback_def get_sensor_measurements_def empty_buffers_def Let_def
           split: sensor_result.splits prod.splits outcome.splits)

lemma large_payload_ticks_fill:
  assumes "py_round t 2 \<noteq> 0" "py_round p 2 \<noteq> 0"
  shows "length ts + n < 60 \<Longrightarrow>
     large_payload_ticks depth (replicate n (Measurements t p, tp) @ rest)
       \<lparr>temperature_data_buffer = ts, pressure_data_buffer = ps\<rparr> =
     map (\<lambda>i. \<lparr>temperature_data_buffer = ts @ replicate i (py_round t 2),
                pressure_data_buffer = ps @ replicate i (py_round p 2)\<rparr>) [1..<Suc n] @
     large_payload_ticks depth rest
       \<lparr>temperature_data_buffer = ts @ replicate n (py_round t 2),
        pressure_data_buffer = ps @ replicate n (py_round p 2)\<rparr>"
proof (induction n arbitrary: ts ps)
  case 0
  then show ?case by simp
next
  case (Suc n)
  let ?b = "\<lparr>temperature_data_buffer = ts, pressure_data_buffer = ps\<rparr>"
  have cb: "large_payload_callback depth (Measurements t p) tp ?b =
     (Returned (),
      \<lparr>temperature_data_buffer = ts @ [py_round t 2], pressure_data_buffer = ps @ [py_round p 2]\<rparr>,
      [SensorRead, Log INFO ''Temperature, Pressure''])"
    using Suc.prems large_payload_callback_appends [OF assms, of ?b depth tp] by simp
  have IH: "large_payload_ticks depth (replicate n (Measurements t p, tp) @ rest)
       \<lparr>temperature_data_buffer = ts @ [py_round t 2], pressure_data_buffer = ps @ [py_round p 2]\<rparr> =
     map (\<lambda>i. \<lparr>temperature_data_buffer = (ts @ [py_round t 2]) @ replicate i (py_round t 2),
                pressure_data_buffer = (ps @ [py_round p 2]) @ replicate i (py_round p 2)\<rparr>)
         [1..<Suc n] @
     large_payload_ticks depth rest
       \<lparr>temperature_data_buffer = (ts @ [py_round t 2]) @ replicate n (py_round t 2),
        pressure_data_buffer = (ps @ [py_round p 2]) @ replicate n (py_round p 2)\<rparr>"
    using Suc.prems by (intro Suc.IH) simp
  have upt: "[1..<Suc (Suc n)] = 1 # map Suc [1..<Suc n]"
    by (simp add: upt_conv_Cons map_Suc_upt del: upt_Suc)
  show ?case
    by (simp only: replicate_Suc append_Cons large_payload_ticks.simps cb prod.case IH upt
          list.map map_map o_def)
       (simp add: replicate_app_Cons_same)
qed

text \<open>
  C6. The claim: between callbacks the two buffers have the same length, which never
  exceeds 60, and after a flush both are empty whether or not the delivery succeeded.
  The lengths are always equal (\<open>large_payload_callback_equal_length\<close>). The two
  calls of \<^verbatim>\<open>clear()\<close> come after \<^verbatim>\<open>send_mqtt\<close>, and the exception of an
  exhausted recovery (the defect of C2) leaves the callback before they run. After 59
  readings with the broker up and two readings with the broker down, the buffers hold
  60 and then 61 entries: the 60th tick has issued the publish of the batch and has
  not cleared the buffers.
\<close>

theorem batch_buffers_exceed_capacity:
  "map buffered
     (large_payload_ticks depth
        (replicate 59 (Measurements 21.456 1013.256, broker_up) @
         [(Measurements 21.456 1013.256, broker_down),
          (Measurements 21.456 1013.256, broker_down)])
        (fst infrequent_large_payload)) = [1..<60] @ [60, 61] \<and>
   large_payload_callback depth (Measurements 21.456 1013.256) broker_down
     \<lparr>temperature_data_buffer = replicate 59 21.46,
      pressure_data_buffer = replicate 59 1013.26\<rparr> =
     (Raised RuntimeError,
      \<lparr>temperature_data_buffer = replicate 59 21.46 @ [21.46],
       pressure_data_buffer = replicate 59 1013.26 @ [1013.26]\<rparr>,
      [SensorRead, Log INFO ''Temperature, Pressure''] @
      snd (send_mqtt depth broker_down MQTT_TOPIC_DATA_COLLECTION
             (format_data (NumList (replicate 59 21.46 @ [21.46]))
                          (NumList (replicate 59 1013.26 @ [1013.26])))))"
proof
  have nz: "py_round 21.456 2 \<noteq> 0" "py_round 1013.256 2 \<noteq> 0"
    by (simp_all only: py_round_scenario) simp_all
  let ?b59 = "\<lparr>temperature_data_buffer = replicate 59 (py_round 21.456 2),
                pressure_data_buffer = replicate 59 (py_round 1013.256 2)\<rparr>"
  have fill: "large_payload_ticks depth
        (replicate 59 (Measurements 21.456 1013.256, broker_up) @
         [(Measurements 21.456 1013.256, broker_down),
          (Measurements 21.456 1013.256, broker_down)])
        \<lparr>temperature_data_buffer = [], pressure_data_buffer = []\<rparr> =
     map (\<lambda>i. \<lparr>temperature_data_buffer = [] @ replicate i (py_round 21.456 2),
                pressure_data_buffer = [] @ replicate i (py_round 1013.256 2)\<rparr>) [1..<Suc 59] @
     large_payload_ticks depth
        [(Measurements 21.456 1013.256, broker_down),
         (Measurements 21.456 1013.256, broker_down)]
       \<lparr>temperature_data_buffer = [] @ replicate 59 (py_round 21.456 2),
        pressure_data_buffer = [] @ replicate 59 (py_round 1013.256 2)\<rparr>"
    by (rule large_payload_ticks_fill [OF nz]) simp
  have o1: "large_payload_callback depth (Measurements 21.456 1013.256) broker_down ?b59 =
     (Raised RuntimeError,
      \<lparr>temperature_data_buffer = replicate 59 (py_round 21.456 2) @ [py_round 21.456 2],
       pressure_data_buffer = replicate 59 (py_round 1013.256 2) @ [py_round 1013.256 2]\<rparr>,
      [SensorRead, Log INFO ''Temperature, Pressure''] @
      snd (send_mqtt depth broker_down MQTT_TOPIC_DATA_COLLECTION
             (format_data (NumList (replicate 59 (py_round 21.456 2) @ [py_round 21.456 2]))
                          (NumList (replicate 59 (py_round 1013.256 2) @ [py_round 1013.256 2])))))"
    using large_payload_callback_overflow [OF nz, of ?b59 depth] by simp
  let ?b60 = "\<lparr>temperature_data_buffer = replicate 59 (py_round 21.456 2) @ [py_round 21.456 2],
       pressure_data_buffer = replicate 59 (py_round 1013.256 2) @ [py_round 1013.256 2]\<rparr>"
  let ?b61 = "\<lparr>temperature_data_buffer =
         (replicate 59 (py_round 21.456 2) @ [py_round 21.456 2]) @ [py_round 21.456 2],
       pressure_data_buffer =
         (replicate 59 (py_round 1013.256 2) @ [py_round 1013.256 2]) @ [py_round 1013.256 2]\<rparr>"
  have "\<exists>tr. large_payload_callback depth (Measurements 21.456 1013.256) broker_down ?b60 =
      (Raised RuntimeError, ?b61, tr)"
    using large_payload_callback_overflow [OF nz, of ?b60 depth] by simp
  then obtain tr2 where
    o2: "large_payload_callback depth (Measurements 21.456 1013.256) broker_down ?b60 =
      (Raised RuntimeError, ?b61, tr2)" ..
  have lens: "map buffered
     (map (\<lambda>i. \<lparr>temperature_data_buffer = [] @ replicate i (py_round 21.456 2),
                pressure_data_buffer = [] @ replicate i (py_round 1013.256 2)\<rparr>) [1..<Suc 59]) =
     [1..<60]"
    by (simp add: buffered_def o_def del: upt_Suc)
  have tail: "map buffered (large_payload_ticks depth
        [(Measurements 21.456 1013.256, broker_down),
         (Measurements 21.456 1013.256, broker_down)] ?b59) = [60, 61]"
    by (simp only: large_payload_ticks.simps o1 o2 prod.case list.map buffered_def
          select_convs) simp
  show "map buffered
     (large_payload_ticks depth
        (replicate 59 (Measurements 21.456 1013.256, broker_up) @
         [(Measurements 21.456 1013.256, broker_down),
          (Measurements 21.456 1013.256, broker_down)])
        (fst infrequent_large_payload)) = [1..<60] @ [60, 61]"
    using lens tail
    by (simp only: infrequent_large_payload_def fst_conv empty_buffers_def fill map_append
          append_Nil)
  show "large_payload_callback depth (Measurements 21.456 1013.256) broker_down
     \<lparr>temperature_data_buffer = replicate 59 21.46,
      pressure_data_buffer = replicate 59 1013.26\<rparr> =
     (Raised RuntimeError,
      \<lparr>temperature_data_buffer = replicate 59 21.46 @ [21.46],
       pressure_data_buffer = replicate 59 1013.26 @ [1013.26]\<rparr>,
      [SensorRead, Log INFO ''Temperature, Pressure''] @
      snd (send_mqtt depth broker_down MQTT_TOPIC_DATA_COLLECTION
             (format_data (NumList (replicate 59 21.46 @ [21.46]))
                          (NumList (replicate 59 1013.26 @ [1013.26])))))"
    using o1 by (simp only: py_round_scenario)
qed

subsection \<open>Joining a network\<close>

lemma connect_wifi_all_fail:
  "\<forall>i. \<not> polls i \<Longrightarrow> connect_wifi polls ssid password =
     (False,
      [WlanActive, WlanConnect ssid password] @ concat (replicate 5 failed_wait) @
      [WlanIsConnected False, WlanIsConnected False, Log ERROR ''Failed to connect to Wi-Fi''])"
  by (simp add: connect_wifi_def connect_wifi_loop.simps failed_wait_def numeral_eq_Suc)

lemma connect_wifi_loop_no_join: "filter is_join (snd (connect_wifi_loop polls k r)) = []"
proof (induction polls k r rule: connect_wifi_loop.induct)
  case (1 polls k retry_count)
  show ?case
    using 1 by (subst connect_wifi_loop.simps) (auto split: prod.splits)
qed

lemma connect_wifi_joins_once:
  "filter is_join (snd (connect_wifi polls ssid password)) = [WlanConnect ssid password]"
  using connect_wifi_loop_no_join [of polls 0 0]
  by (auto simp: connect_wifi_def split: prod.splits)

text \<open>
  C8. When no poll ever reports the network as joined, \<^verbatim>\<open>connect_wifi\<close> asks the
  driver once to join (\<^verbatim>\<open>wlan.connect\<close>) and then makes exactly five passes through
  its retry loop; each pass is logged as an attempt to connect and sleeps 1 second,
  and the status is polled again after each. Then it logs the failure and returns
  \<^verbatim>\<open>False\<close>, on which \<^verbatim>\<open>main\<close> goes on with \<^verbatim>\<open>create_ap\<close> and
  \<^verbatim>\<open>serve_web\<close>.
\<close>

theorem connect_wifi_never_joined:
  assumes "\<forall>i. \<not> polls i"
  shows "connect_wifi polls ssid password =
     (False,
      [WlanActive, WlanConnect ssid password] @ concat (replicate 5 failed_wait) @
      [WlanIsConnected False, WlanIsConnected False, Log ERROR ''Failed to connect to Wi-Fi'']) \<and>
     (wifi_polls e = polls \<longrightarrow>
        main e =
          (fst (serve_web (boot_sock_ok e) (form_polls e) (boot_send_ok e) (boot_clients e)),
           snd (connect_wifi polls (SSID e) (PASSWORD e)) @
           [Log INFO ''Failed to connect to the known Wi-Fi. Starting Access Point...''] @
           create_ap (boot_ap e) @
           snd (serve_web (boot_sock_ok e) (form_polls e) (boot_send_ok e) (boot_clients e))))"
proof (intro conjI impI)
  show "connect_wifi polls ssid password =
     (False,
      [WlanActive, WlanConnect ssid password] @ concat (replicate 5 failed_wait) @
      [WlanIsConnected False, WlanIsConnected False, Log ERROR ''Failed to connect to Wi-Fi''])"
    using assms by (rule connect_wifi_all_fail)
next
  assume e: "wifi_polls e = polls"
  have "connect_wifi polls (SSID e) (PASSWORD e) =
     (False,
      [WlanActive, WlanConnect (SSID e) (PASSWORD e)] @ concat (replicate 5 failed_wait) @
      [WlanIsConnected False, WlanIsConnected False, Log ERROR ''Failed to connect to Wi-Fi''])"
    using assms by (rule connect_wifi_all_fail)
  then show "main e =
          (fst (serve_web (boot_sock_ok e) (form_polls e) (boot_send_ok e) (boot_clients e)),
           snd (connect_wifi polls (SSID e) (PASSWORD e)) @
           [Log INFO ''Failed to connect to the known Wi-Fi. Starting Access Point...''] @
           create_ap (boot_ap e) @
           snd (serve_web (boot_sock_ok e) (form_polls e) (boot_send_ok e) (boot_clients e)))"
    using e by (simp add: main_def Let_def split: prod.splits)
qed

theorem connect_wifi_never_joined_witness:
  "(\<forall>i. \<not> never_joined i) \<and>
   connect_wifi never_joined ''home'' ''pw'' =
     (False,
      [WlanActive, WlanConnect ''home'' ''pw'',
       WlanIsConnected False, Log INFO ''Attempting to connect to Wi-Fi'', Sleep 1,
       WlanIsConnected False, Log INFO ''Attempting to connect to Wi-Fi'', Sleep 1,
       WlanIsConnected False, Log INFO ''Attempting to connect to Wi-Fi'', Sleep 1,
       WlanIsConnected False, Log INFO ''Attempting to connect to Wi-Fi'', Sleep 1,
       WlanIsConnected False, Log INFO ''Attempting to connect to Wi-Fi'', Sleep 1,
       WlanIsConnected False, WlanIsConnected False, Log ERROR ''Failed to connect to Wi-Fi'']) \<and>
   main \<lparr>SSID = ''home'', PASSWORD = ''pw'', wifi_polls = never_joined, boot_ap = ApRunning,
         boot_sock_ok = True, boot_clients = [], form_polls = never_joined,
         boot_send_ok = True, boot_ctx_ok = True, boot_broker = (\<lambda>i. ConnectOk)\<rparr> =
     (Running,
      snd (connect_wifi never_joined ''home'' ''pw'') @
      [Log INFO ''Failed to connect to the known Wi-Fi. Starting Access Point...'',
       ApActive, ApConfig AP_SSID AP_PASSWORD, Log INFO ''Access Point created'', Sleep 2,
       ApIsActive True, Log INFO ''AP is active'', SockListen, Log INFO ''Listening''])"
  using connect_wifi_never_joined
          [of never_joined "''home''" "''pw''"
              "\<lparr>SSID = ''home'', PASSWORD = ''pw'', wifi_polls = never_joined, boot_ap = ApRunning,
                boot_sock_ok = True, boot_clients = [], form_polls = never_joined,
                boot_send_ok = True, boot_ctx_ok = True, boot_broker = (\<lambda>i. ConnectOk)\<rparr>"]
  by (simp add: never_joined_def failed_wait_def numeral_eq_Suc serve_web_def create_ap_def)

subsection \<open>The form parser\<close>

text \<open>\<^verbatim>\<open>sub in s\<close> holds exactly when \<open>sub\<close> occurs in \<open>s\<close>.\<close>

lemma find_at_none_iff:
  "(find_at sub s i = - 1) = (\<nexists>xs ys. s = xs @ sub @ ys)"
proof (induction s arbitrary: i)
  case Nil
  then show ?case by auto
next
  case (Cons c cs)
  have pre: "(take (length sub) (c # cs) = sub) = (\<exists>ys. c # cs = sub @ ys)"
    by (metis append_eq_conv_conj append_take_drop_id)
  have split: "(\<exists>xs ys. c # cs = xs @ sub @ ys) =
        ((\<exists>ys. c # cs = sub @ ys) \<or> (\<exists>xs ys. cs = xs @ sub @ ys))"
  proof
    assume "\<exists>xs ys. c # cs = xs @ sub @ ys"
    then obtain xs ys where e: "c # cs = xs @ sub @ ys" by blast
    show "(\<exists>ys. c # cs = sub @ ys) \<or> (\<exists>xs ys. cs = xs @ sub @ ys)"
    proof (cases xs)
      case Nil with e show ?thesis by auto
    next
      case (Cons x xs') with e show ?thesis by auto
    qed
  next
    assume "(\<exists>ys. c # cs = sub @ ys) \<or> (\<exists>xs ys. cs = xs @ sub @ ys)"
    then show "\<exists>xs ys. c # cs = xs @ sub @ ys"
    proof
      assume "\<exists>ys. c # cs = sub @ ys"
      then show ?thesis by (metis append_Nil)
    next
      assume "\<exists>xs ys. cs = xs @ sub @ ys"
      then show ?thesis by (metis append_Cons)
    qed
  qed
  show ?case
    using Cons.IH [of "i + 1"] pre split by simp
qed

lemma py_in_iff: "py_in sub s = (\<exists>xs ys. s = xs @ sub @ ys)"
  by (simp add: py_in_def py_find_def find_at_none_iff)


subsection \<open>The configuration server\<close>

lemma serve_web_open:
  "serve_web True polls s cl =
     (fst (serve_web_loop polls s cl),
      [SockListen, Log INFO ''Listening''] @ snd (serve_web_loop polls s cl))"
  by (simp add: serve_web_def split: prod.splits)

lemma serve_web_loop_skip:
  "\<not> py_in ''POST'' (py_str_bytes r) \<Longrightarrow>
   serve_web_loop polls s (Request r # cl) =
     (fst (serve_web_loop polls s cl), ignored_request @ snd (serve_web_loop polls s cl))"
  by (simp add: ignored_request_def split: prod.splits)

lemma serve_web_loop_prefix:
  assumes "\<forall>b \<in> set pre. \<not> py_in ''POST'' (py_str_bytes b)"
  shows "serve_web_loop polls s (map Request pre @ cl) =
     (fst (serve_web_loop polls s cl),
      concat (replicate (length pre) ignored_request) @ snd (serve_web_loop polls s cl))"
  using assms
proof (induction pre)
  case Nil
  then show ?case by simp
next
  case (Cons r pre)
  then have r: "\<not> py_in ''POST'' (py_str_bytes r)" by simp
  from Cons have IH: "serve_web_loop polls s (map Request pre @ cl) =
     (fst (serve_web_loop polls s cl),
      concat (replicate (length pre) ignored_request) @ snd (serve_web_loop polls s cl))"
    by simp
  show ?case
    by (simp add: serve_web_loop_skip [OF r] IH del: serve_web_loop.simps)
qed

lemma serve_web_loop_post:
  assumes "py_in ''POST'' (py_str_bytes post)"
  shows "serve_web_loop polls s (Request post # rest) =
     (Returned (),
      [SockAccept, Log INFO ''Client connected'', SockRecv, Log INFO ''Received SSID''] @
      snd (connect_wifi polls (fst (parse_form (py_str_bytes post)))
                              (snd (parse_form (py_str_bytes post)))) @
      (if \<not> s then [Log ERROR ''Exception in serve_web'']
       else if fst (connect_wifi polls (fst (parse_form (py_str_bytes post)))
                                       (snd (parse_form (py_str_bytes post))))
       then [SockSend ok_header, SockSend page_connected, SockClose]
       else [SockSend ok_header, SockSend page_failed, SockClose]))"
  using assms by (simp split: prod.splits)

lemma no_join_in_ignored: "filter is_join (concat (replicate n ignored_request)) = []"
  by (induction n) (simp_all add: ignored_request_def)

lemma serve_web_clients_cases:
  "\<exists>pre. (\<forall>b \<in> set pre. \<not> py_in ''POST'' (py_str_bytes b)) \<and>
     (clients = map Request pre \<or>
      (\<exists>rest. clients = map Request pre @ AcceptRaises # rest) \<or>
      (\<exists>rest. clients = map Request pre @ RecvRaises # rest) \<or>
      (\<exists>post rest. py_in ''POST'' (py_str_bytes post) \<and>
                    clients = map Request pre @ Request post # rest))"
proof (induction clients)
  case Nil
  show ?case by (rule exI [of _ "[]"]) simp
next
  case (Cons c clients)
  show ?case
  proof (cases c)
    case AcceptRaises
    then show ?thesis by (intro exI [of _ "[]"]) simp
  next
    case RecvRaises
    then show ?thesis by (intro exI [of _ "[]"]) simp
  next
    case (Request b)
    show ?thesis
    proof (cases "py_in ''POST'' (py_str_bytes b)")
      case True
      with Request show ?thesis by (intro exI [of _ "[]"]) simp
    next
      case False
      from Cons obtain pre where pre: "\<forall>b \<in> set pre. \<not> py_in ''POST'' (py_str_bytes b)"
        and cs: "clients = map Request pre \<or>
          (\<exists>rest. clients = map Request pre @ AcceptRaises # rest) \<or>
          (\<exists>rest. clients = map Request pre @ RecvRaises # rest) \<or>
          (\<exists>post rest. py_in ''POST'' (py_str_bytes post) \<and>
                        clients = map Request pre @ Request post # rest)"
        by blast
      show ?thesis
        using False pre cs Request by (intro exI [of _ "b # pre"]) auto
    qed
  qed
qed

text \<open>
  C3, the claim as stated fails: a POST request without the marker
  \<^verbatim>\<open>password=\<close> is not rejected. From the request below the server extracts the
  network name \<^verbatim>\<open>MyNet\<close> and an empty password and calls \<^verbatim>\<open>wlan.connect\<close>
  with them.
\<close>

theorem serve_web_missing_password_counterexample:
  "py_in ''POST'' (py_str_bytes (''POST / HTTP/1.1'' @ crlf @ crlf @ ''ssid=MyNet&pwd=secret'')) \<and>
   \<not> py_in ''password=''
        (py_str_bytes (''POST / HTTP/1.1'' @ crlf @ crlf @ ''ssid=MyNet&pwd=secret'')) \<and>
   filter is_join
     (snd (serve_web True never_joined True
             [Request (''POST / HTTP/1.1'' @ crlf @ crlf @ ''ssid=MyNet&pwd=secret'')])) =
     [WlanConnect ''MyNet'' '''']"
  by code_simp

text \<open>
  C3, as amended. For every request received by the server whose text contains
  \<^verbatim>\<open>POST\<close>, with or without the markers, the parser yields two strings without
  raising, and the server attempts exactly one join, with these two strings, and
  returns. When the marker \<^verbatim>\<open>password=\<close> is missing, \<^verbatim>\<open>find\<close> gives -1 and the
  password is the text from position 8 to the next \<^verbatim>\<open> HTTP\<close> found from there;
  when \<^verbatim>\<open>ssid=\<close> is missing, the network name is the text from position 4 to the
  next \<^verbatim>\<open>&\<close>.
\<close>

theorem serve_web_joins_with_what_it_extracts:
  assumes "\<forall>b \<in> set pre. \<not> py_in ''POST'' (py_str_bytes b)"
    and "py_in ''POST'' (py_str_bytes request)"
  shows "fst (serve_web True polls s (map Request pre @ Request request # rest)) = Returned () \<and>
         filter is_join (snd (serve_web True polls s (map Request pre @ Request request # rest))) =
           [WlanConnect (fst (parse_form (py_str_bytes request)))
                        (snd (parse_form (py_str_bytes request)))] \<and>
         (\<not> py_in ''password='' (py_str_bytes request) \<longrightarrow>
            snd (parse_form (py_str_bytes request)) =
              py_slice (py_str_bytes request) 8 (py_find (py_str_bytes request) '' HTTP'' 8)) \<and>
         (\<not> py_in ''ssid='' (py_str_bytes request) \<longrightarrow>
            fst (parse_form (py_str_bytes request)) =
              py_slice (py_str_bytes request) 4 (py_find (py_str_bytes request) ''&'' 4))"
proof (intro conjI impI)
  show "fst (serve_web True polls s (map Request pre @ Request request # rest)) = Returned ()"
    by (simp add: serve_web_open serve_web_loop_prefix [OF assms(1)]
          serve_web_loop_post [OF assms(2)] del: serve_web_loop.simps)
  show "filter is_join (snd (serve_web True polls s (map Request pre @ Request request # rest))) =
           [WlanConnect (fst (parse_form (py_str_bytes request)))
                        (snd (parse_form (py_str_bytes request)))]"
    by (simp add: serve_web_open serve_web_loop_prefix [OF assms(1)]
          serve_web_loop_post [OF assms(2)] no_join_in_ignored connect_wifi_joins_once
          del: serve_web_loop.simps)
next
  assume "\<not> py_in ''password='' (py_str_bytes request)"
  then have "py_find (py_str_bytes request) ''password='' 0 = - 1" by (simp add: py_in_def)
  then show "snd (parse_form (py_str_bytes request)) =
              py_slice (py_str_bytes request) 8 (py_find (py_str_bytes request) '' HTTP'' 8)"
    by (simp add: parse_form_def Let_def)
next
  assume "\<not> py_in ''ssid='' (py_str_bytes request)"
  then have "py_find (py_str_bytes request) ''ssid='' 0 = - 1" by (simp add: py_in_def)
  then show "fst (parse_form (py_str_bytes request)) =
              py_slice (py_str_bytes request) 4 (py_find (py_str_bytes request) ''&'' 4)"
    by (simp add: parse_form_def Let_def)
qed

theorem serve_web_joins_with_what_it_extracts_witness:
  "\<not> py_in ''POST'' (py_str_bytes (''GET / HTTP/1.1'' @ crlf @ crlf)) \<and>
   py_in ''POST'' (py_str_bytes (''POST / HTTP/1.1'' @ crlf @ crlf @ ''ssid=MyNet&pwd=secret'')) \<and>
   \<not> py_in ''password=''
        (py_str_bytes (''POST / HTTP/1.1'' @ crlf @ crlf @ ''ssid=MyNet&pwd=secret'')) \<and>
   fst (serve_web True never_joined True
          (map Request [''GET / HTTP/1.1'' @ crlf @ crlf] @
           Request (''POST / HTTP/1.1'' @ crlf @ crlf @ ''ssid=MyNet&pwd=secret'') # [])) =
     Returned () \<and>
   snd (parse_form (py_str_bytes (''POST / HTTP/1.1'' @ crlf @ crlf @ ''ssid=MyNet&pwd=secret''))) =
     py_slice (py_str_bytes (''POST / HTTP/1.1'' @ crlf @ crlf @ ''ssid=MyNet&pwd=secret'')) 8
       (py_find (py_str_bytes (''POST / HTTP/1.1'' @ crlf @ crlf @ ''ssid=MyNet&pwd=secret''))
          '' HTTP'' 8)"
  (is "?get \<and> ?post \<and> \<not> ?pw \<and> ?ret \<and> ?slice")
proof -
  have get: "?get" by code_simp
  then have pre: "\<forall>b \<in> set [''GET / HTTP/1.1'' @ crlf @ crlf]. \<not> py_in ''POST'' (py_str_bytes b)"
    by simp
  have post: "?post" by code_simp
  have pw: "\<not> ?pw" by code_simp
  note t = serve_web_joins_with_what_it_extracts [OF pre post, of never_joined True "[]"]
  from t have ret: "?ret" by (elim conjE)
  from t pw have slice: "?slice" by (elim conjE) (erule (1) mp)
  from get post pw ret slice show ?thesis by (intro conjI)
qed




end
